theory Spec2Isabelle
  imports Complex_Main "HOL-Library.Sublist"
begin

section \<open>Values of the JavaScript runtime\<close>

text \<open>
  Rows come back from the query builder as plain JavaScript objects, so a column that the
  routes never constrain holds a dynamically typed value. \<open>JNum\<close> carries the
  integer-valued numbers (a count, a 0/1 flag column); \<open>===\<close> on two such values is
  equality of the constructors and their arguments.
\<close>

datatype jsval = JUndefined | JNull | JBool bool | JNum int | JStr string

section \<open>The tables\<close>

text \<open>
  Table \<open>users\<close>: the columns that \<open>POST /users\<close> inserts (users.ts, lines 159-167).
  The fields are prefixed because \<open>id\<close> and \<open>name\<close> occur in both tables.
  \<open>weight\<close> and \<open>height\<close> are \<open>z.number()\<close>.
\<close>

record user =
  u_id :: string
  u_name :: string
  u_email :: string
  u_address :: string
  u_weight :: real
  u_height :: real
  u_session_id :: string

text \<open>
  Table \<open>meals\<close>: the columns the routes name. meals.ts writes and filters
  \<open>isOnTheDiet\<close>, always with a \<open>z.boolean()\<close> (lines 32, 44, 212, 227, 278, 283);
  the metrics route of users.ts selects \<open>dateAndHour\<close> and \<open>inDiet\<close> (lines 72-73),
  which no route writes.
\<close>

record meal =
  m_id :: string
  m_user_id :: string
  m_name :: string
  m_description :: string
  isOnTheDiet :: bool
  dateAndHour :: jsval
  inDiet :: jsval

record database =
  users :: "user list"
  meals :: "meal list"

section \<open>Replies\<close>

text \<open>The fixed texts of the replies, by the place that sends them.\<close>

datatype message =
    NoMealsForMetrics         \<comment> \<open>users.ts, line 81\<close>
  | UserNotFound              \<comment> \<open>'Usuario nao encontrado' (with its accents)\<close>
  | InternalServerError       \<comment> \<open>'Erro interno do servidor'\<close>
  | EmailAlreadyBound         \<comment> \<open>users.ts, line 144\<close>
  | UserRegistered            \<comment> \<open>users.ts, line 172\<close>
  | MealCreated               \<comment> \<open>meals.ts, line 49\<close>
  | MealNotFound              \<comment> \<open>'Refeicao nao encontrada' (with its accents)\<close>
  | Unauthorized              \<comment> \<open>meals.ts, line 168\<close>
  | MealDeleted               \<comment> \<open>meals.ts, line 174\<close>
  | MealEdited                \<comment> \<open>meals.ts, line 240\<close>

text \<open>The object \<open>metricsResponse\<close> of users.ts, lines 111-116.\<close>

record metricsResponse =
  totalNumberOfMeals :: nat
  totalNumberOfMealsInTheDiet :: nat
  totalNumberOfMealsOffTheDiet :: nat
  bestSequenceOfMealsWithinTheDiet :: nat

text \<open>What \<open>parseInt\<close> returns: an integer, or \<open>NaN\<close> when no digit was read.\<close>

datatype jsnum = Num int | NaN

text \<open>
  The object \<open>summary\<close> of meals.ts, lines 286-302; its three keys are
  'Total de refeicoes registradas', '... dentro da dieta' and '... fora da dieta'.
\<close>

record mealsSummary =
  totalRegistered :: jsnum
  totalWithinDiet :: jsnum
  totalOutsideDiet :: jsnum

datatype body =
    ErrorBody message                 \<comment> \<open>\<open>{ error: ... }\<close>\<close>
  | MessageBody message               \<comment> \<open>\<open>{ message: ... }\<close>\<close>
  | TextBody message                  \<comment> \<open>a bare string\<close>
  | MealBody meal                     \<comment> \<open>\<open>{ meal }\<close>\<close>
  | MetricsBody metricsResponse
  | MealsSummaryBody mealsSummary     \<comment> \<open>\<open>{ summary }\<close> of meals.ts\<close>
  | UsersSummaryBody jsnum            \<comment> \<open>\<open>{ summary }\<close> of users.ts, its one field\<close>

datatype reply = Reply nat body

text \<open>
  A handler either sends a reply or its promise rejects with the error that escaped it.
  An object returned from a handler is sent with status 200.
\<close>

datatype js_error = ReferenceError string

datatype outcome = Sent reply | Rejected js_error

section \<open>Metrics: \<open>GET /users/metrics\<close> (users.ts, lines 60-120)\<close>

text \<open>
  The query of lines 66-76: the rows of \<open>meals\<close> joined with the users that own them,
  restricted to the users whose \<open>session_id\<close> is the cookie's. The rows are taken in the
  order of the table \<open>meals\<close>.
\<close>

definition sessionMeals :: "database \<Rightarrow> string \<Rightarrow> meal list" where
  "sessionMeals db sessionId =
     [m. m \<leftarrow> meals db, u \<leftarrow> users db, u_id u = m_user_id m, u_session_id u = sessionId]"

text \<open>
  The loop of lines 96-105 over the state \<open>(currentStreak, maxStreak)\<close>.
\<close>

fun streakLoop :: "meal list \<Rightarrow> nat \<times> nat \<Rightarrow> nat \<times> nat" where
  "streakLoop [] (currentStreak, maxStreak) = (currentStreak, maxStreak)"
| "streakLoop (meal # rest) (currentStreak, maxStreak) =
     (if inDiet meal = JNum 1
      then streakLoop rest (currentStreak + 1, maxStreak)
      else streakLoop rest (0, if currentStreak > maxStreak then currentStreak else maxStreak))"

text \<open>Lines 85-116: the counts, the loop from \<open>(0, 0)\<close>, the step after the loop.\<close>

definition computeMetrics :: "meal list \<Rightarrow> metricsResponse" where
  "computeMetrics ms =
     (let (currentStreak, maxStreak) = streakLoop ms (0, 0);
          maxStreak = (if currentStreak > maxStreak then currentStreak else maxStreak)
      in \<lparr> totalNumberOfMeals = length ms,
           totalNumberOfMealsInTheDiet = length (filter (\<lambda>item. inDiet item = JNum 1) ms),
           totalNumberOfMealsOffTheDiet = length (filter (\<lambda>item. inDiet item = JNum 0) ms),
           bestSequenceOfMealsWithinTheDiet = maxStreak \<rparr>)"

text \<open>Lines 78-118, on the rows the query returned.\<close>

definition metricsHandler :: "meal list \<Rightarrow> outcome" where
  "metricsHandler ms =
     (if length ms = 0 then Sent (Reply 404 (MessageBody NoMealsForMetrics))
      else Sent (Reply 200 (MetricsBody (computeMetrics ms))))"

definition metricsRoute :: "database \<Rightarrow> string \<Rightarrow> outcome" where
  "metricsRoute db sessionId = metricsHandler (sessionMeals db sessionId)"

text \<open>
  The reference for the best sequence, from the words of the specification: the greatest
  length of a contiguous run of the flags, in their order, all of whose entries are true.
  \<open>sublists\<close> lists the contiguous segments of a list.
\<close>

definition longestRun :: "bool list \<Rightarrow> nat" where
  "longestRun flags = Max (set (map length (filter (list_all (\<lambda>flag. flag)) (sublists flags))))"


section \<open>Resolving the session\<close>

text \<open>
  \<open>const [user] = await knex('users').where('session_id', sessionId).select('id')\<close>
  followed by \<open>user.id\<close>: the id of the first row with that token, if there is one
  (meals.ts, lines 18-27 and its copies; users.ts, lines 266-268). The handlers behind
  \<open>checkSessionIdExists\<close> run with the cookie the request carried.
\<close>

definition findUserId :: "database \<Rightarrow> string \<Rightarrow> string option" where
  "findUserId db sessionId =
     (case [u_id u. u \<leftarrow> users db, u_session_id u = sessionId] of
        [] \<Rightarrow> None
      | userId # _ \<Rightarrow> Some userId)"

section \<open>Registration: \<open>POST /users\<close> (users.ts, lines 122-177)\<close>

record userBody =
  b_name :: string
  b_email :: string
  b_address :: string
  b_weight :: real
  b_height :: real

record registration =
  answered :: outcome
  cookieSet :: "string option"
  stored :: database

text \<open>
  \<open>body\<close> is what \<open>createUserBodySchema.parse\<close> yields, \<open>None\<close> when it throws
  (the \<open>catch\<close> of line 173 then answers 500). \<open>cookie\<close> is
  \<open>request.cookies.sessionId\<close>; \<open>!sessionId\<close> holds for a missing cookie and for the
  empty string. \<open>newSessionId\<close> and \<open>newUserId\<close> are what \<open>randomUUID()\<close> returns at
  line 151 and at line 160.
\<close>

definition registerUser ::
  "database \<Rightarrow> string option \<Rightarrow> userBody option \<Rightarrow> string \<Rightarrow> string \<Rightarrow> registration" where
  "registerUser db cookie body newSessionId newUserId =
     (case body of
        None \<Rightarrow>
          \<lparr> answered = Sent (Reply 500 (ErrorBody InternalServerError)),
            cookieSet = None, stored = db \<rparr>
      | Some b \<Rightarrow>
          (case find (\<lambda>u. u_email u = b_email b) (users db) of
             Some checkUserExist \<Rightarrow>
               \<lparr> answered = Sent (Reply 400 (ErrorBody EmailAlreadyBound)),
                 cookieSet = None, stored = db \<rparr>
           | None \<Rightarrow>
               (let absent = (case cookie of None \<Rightarrow> True | Some c \<Rightarrow> c = []);
                    sessionId = (case cookie of
                                   None \<Rightarrow> newSessionId
                                 | Some c \<Rightarrow> if c = [] then newSessionId else c)
                in \<lparr> answered = Sent (Reply 201 (MessageBody UserRegistered)),
                     cookieSet = (if absent then Some sessionId else None),
                     stored = db \<lparr> users := users db @
                       [\<lparr> u_id = newUserId, u_name = b_name b, u_email = b_email b,
                          u_address = b_address b, u_weight = b_weight b,
                          u_height = b_height b, u_session_id = sessionId \<rparr>] \<rparr> \<rparr>)))"

section \<open>Meals: meals.ts\<close>

record mealBody =
  mb_name :: string
  mb_description :: string
  mb_isOnTheDiet :: bool

text \<open>
  \<open>POST /meals\<close> (lines 11-55). The insert of lines 39-45 names five columns; the
  others take what the table gives a column that an insert leaves out, the row
  \<open>blank\<close> (the table's schema is not among the sources). \<open>newMealId\<close> is the
  \<open>randomUUID()\<close> of line 40.
\<close>

definition createMeal ::
  "meal \<Rightarrow> database \<Rightarrow> string \<Rightarrow> mealBody option \<Rightarrow> string \<Rightarrow> outcome \<times> database" where
  "createMeal blank db sessionId body newMealId =
     (case findUserId db sessionId of
        None \<Rightarrow> (Sent (Reply 404 (ErrorBody UserNotFound)), db)
      | Some userId \<Rightarrow>
          (case body of
             None \<Rightarrow> (Sent (Reply 500 (ErrorBody InternalServerError)), db)
           | Some b \<Rightarrow>
               (Sent (Reply 201 (TextBody MealCreated)),
                db \<lparr> meals := meals db @
                  [blank \<lparr> m_id := newMealId, m_user_id := userId, m_name := mb_name b,
                     m_description := mb_description b,
                     isOnTheDiet := mb_isOnTheDiet b \<rparr>] \<rparr>)))"

text \<open>
  \<open>GET /meals/:id\<close> (lines 91-135). \<open>params\<close> is the id that
  \<open>getMealParamsSchema.parse\<close> yields, \<open>None\<close> when it throws.
\<close>

definition getMeal :: "database \<Rightarrow> string \<Rightarrow> string option \<Rightarrow> outcome" where
  "getMeal db sessionId params =
     (case params of
        None \<Rightarrow> Sent (Reply 500 (ErrorBody InternalServerError))
      | Some mealId \<Rightarrow>
          (case findUserId db sessionId of
             None \<Rightarrow> Sent (Reply 404 (ErrorBody UserNotFound))
           | Some userId \<Rightarrow>
               (case find (\<lambda>m. m_id m = mealId \<and> m_user_id m = userId) (meals db) of
                  None \<Rightarrow> Sent (Reply 404 (ErrorBody MealNotFound))
                | Some meal \<Rightarrow> Sent (Reply 200 (MealBody meal)))))"

text \<open>
  \<open>DELETE /meals/:id\<close> (lines 138-179). The statement deletes the rows that both
  \<open>where\<close> clauses select and returns their number, which the handler tests at
  line 166.
\<close>

definition deleteMeal :: "database \<Rightarrow> string \<Rightarrow> string option \<Rightarrow> outcome \<times> database" where
  "deleteMeal db sessionId params =
     (case params of
        None \<Rightarrow> (Sent (Reply 500 (ErrorBody InternalServerError)), db)
      | Some mealId \<Rightarrow>
          (case findUserId db sessionId of
             None \<Rightarrow> (Sent (Reply 404 (ErrorBody UserNotFound)), db)
           | Some userId \<Rightarrow>
               (let selected = (\<lambda>m. m_id m = mealId \<and> m_user_id m = userId);
                    meal = length (filter selected (meals db));
                    db' = db \<lparr> meals := filter (\<lambda>m. \<not> selected m) (meals db) \<rparr>
                in if meal = 0 then (Sent (Reply 401 (ErrorBody Unauthorized)), db')
                   else (Sent (Reply 202 (TextBody MealDeleted)), db'))))"

text \<open>
  \<open>PUT /meals/:id\<close> (lines 182-246): the user is looked up before the body is
  parsed; the update writes three columns of the selected rows and returns their number.
\<close>

definition editMeal ::
  "database \<Rightarrow> string \<Rightarrow> string option \<Rightarrow> mealBody option \<Rightarrow> outcome \<times> database" where
  "editMeal db sessionId params body =
     (case params of
        None \<Rightarrow> (Sent (Reply 500 (ErrorBody InternalServerError)), db)
      | Some mealId \<Rightarrow>
          (case findUserId db sessionId of
             None \<Rightarrow> (Sent (Reply 404 (ErrorBody UserNotFound)), db)
           | Some userId \<Rightarrow>
               (case body of
                  None \<Rightarrow> (Sent (Reply 500 (ErrorBody InternalServerError)), db)
                | Some b \<Rightarrow>
                    (let selected = (\<lambda>m. m_id m = mealId \<and> m_user_id m = userId);
                         meal = length (filter selected (meals db));
                         db' = db \<lparr> meals := map (\<lambda>m. if selected m
                                 then m \<lparr> m_name := mb_name b,
                                        m_description := mb_description b,
                                        isOnTheDiet := mb_isOnTheDiet b \<rparr>
                                 else m) (meals db) \<rparr>
                     in if meal = 0 then (Sent (Reply 401 (ErrorBody MealNotFound)), db')
                        else (Sent (Reply 202 (MessageBody MealEdited)), db')))))"

section \<open>\<open>parseInt\<close>\<close>

text \<open>
  \<open>parseInt(v)\<close> with no radix, as ECMAScript defines it: the argument is turned into
  a string; leading white space and one sign are dropped; \<open>0x\<close> or \<open>0X\<close> selects
  radix 16, otherwise the radix is 10; the longest prefix of digits of that radix is
  read; with no digit the result is \<open>NaN\<close>. Strings are taken as ASCII and the value is
  exact (a count is far below the \<open>2^53\<close> where a JavaScript number starts to round).
\<close>

definition isWhiteSpace :: "char \<Rightarrow> bool" where
  "isWhiteSpace c = (of_char c \<in> {9, 10, 11, 12, 13, 32 :: nat})"

definition digitValue :: "char \<Rightarrow> nat option" where
  "digitValue c =
     (let k = (of_char c :: nat)
      in if 48 \<le> k \<and> k \<le> 57 then Some (k - 48)
         else if 97 \<le> k \<and> k \<le> 122 then Some (k - 87)
         else if 65 \<le> k \<and> k \<le> 90 then Some (k - 55)
         else None)"

definition radixDigit :: "nat \<Rightarrow> char \<Rightarrow> bool" where
  "radixDigit R c = (case digitValue c of None \<Rightarrow> False | Some d \<Rightarrow> d < R)"

definition mathInt :: "nat \<Rightarrow> string \<Rightarrow> nat" where
  "mathInt R Z =
     foldl (\<lambda>acc c. case digitValue c of None \<Rightarrow> acc | Some d \<Rightarrow> acc * R + d) 0 Z"

definition parseIntString :: "string \<Rightarrow> jsnum" where
  "parseIntString inputString =
     (let S = dropWhile isWhiteSpace inputString;
          sign = (if S \<noteq> [] \<and> hd S = CHR ''-'' then - 1 else 1 :: int);
          S = (if S \<noteq> [] \<and> (hd S = CHR ''+'' \<or> hd S = CHR ''-'') then tl S else S);
          hex = (2 \<le> length S \<and> (take 2 S = ''0x'' \<or> take 2 S = ''0X''));
          R = (if hex then 16 else 10);
          S = (if hex then drop 2 S else S);
          Z = takeWhile (radixDigit R) S
      in if Z = [] then NaN else Num (sign * int (mathInt R Z)))"

text \<open>The decimal digits of a natural number, and \<open>ToString\<close> on the values.\<close>

function natToString :: "nat \<Rightarrow> string" where
  "natToString n =
     (if n < 10 then [char_of (48 + n)]
      else natToString (n div 10) @ [char_of (48 + n mod 10)])"
  by pat_completeness auto
termination
  by (relation "measure (\<lambda>n. n)") auto

declare natToString.simps [simp del]

definition toString :: "jsval \<Rightarrow> string" where
  "toString v =
     (case v of
        JUndefined \<Rightarrow> ''undefined''
      | JNull \<Rightarrow> ''null''
      | JBool b \<Rightarrow> (if b then ''true'' else ''false'')
      | JNum n \<Rightarrow> (if n < 0 then CHR ''-'' # natToString (nat (- n)) else natToString (nat n))
      | JStr s \<Rightarrow> s)"

definition parseInt :: "jsval \<Rightarrow> jsnum" where
  "parseInt v = parseIntString (toString v)"

section \<open>Summaries\<close>

text \<open>
  A \<open>count\<close> query yields one row whose field holds the number of rows counted, as a
  number or as text according to the database client: \<open>countValue\<close> is that
  presentation. \<open>JSON.parse(JSON.stringify(row))\<close> leaves such a field as it is.

  \<open>GET /meals/summary\<close> (meals.ts, lines 249-314). The handler is
  \<open>async (request) => ...\<close>: the name \<open>response\<close> is bound nowhere in meals.ts, so
  evaluating it at line 265 throws a \<open>ReferenceError\<close>; the \<open>catch\<close> of line 309
  receives it and evaluates \<open>response\<close> again at line 311, which throws out of the
  handler.
\<close>

type_synonym countPresentation = "nat \<Rightarrow> jsval"

definition mealsSummaryTry :: "countPresentation \<Rightarrow> database \<Rightarrow> string \<Rightarrow> outcome" where
  "mealsSummaryTry countValue db sessionId =
     (case findUserId db sessionId of
        None \<Rightarrow> Rejected (ReferenceError ''response'')
      | Some userId \<Rightarrow>
          (let count = countValue (length (filter (\<lambda>m. m_user_id m = userId) (meals db)));
               refDieta = countValue (length (filter
                 (\<lambda>m. isOnTheDiet m = True \<and> m_user_id m = userId) (meals db)));
               refForaDieta = countValue (length (filter
                 (\<lambda>m. isOnTheDiet m = False \<and> m_user_id m = userId) (meals db)))
           in Sent (Reply 200 (MealsSummaryBody
                \<lparr> totalRegistered = parseInt count,
                  totalWithinDiet = parseInt refDieta,
                  totalOutsideDiet = parseInt refForaDieta \<rparr>))))"

definition mealsSummaryCatch :: "js_error \<Rightarrow> outcome" where
  "mealsSummaryCatch error = Rejected (ReferenceError ''response'')"

definition mealsSummary :: "countPresentation \<Rightarrow> database \<Rightarrow> string \<Rightarrow> outcome" where
  "mealsSummary countValue db sessionId =
     (case mealsSummaryTry countValue db sessionId of
        Rejected error \<Rightarrow> mealsSummaryCatch error
      | Sent r \<Rightarrow> Sent r)"

text \<open>
  \<open>GET /users/summary\<close> (users.ts, lines 258-294); here the handler binds
  \<open>response\<close>.
\<close>

definition usersSummary :: "countPresentation \<Rightarrow> database \<Rightarrow> string \<Rightarrow> outcome" where
  "usersSummary countValue db sessionId =
     (case findUserId db sessionId of
        None \<Rightarrow> Sent (Reply 404 (ErrorBody UserNotFound))
      | Some user \<Rightarrow>
          (let totalUsers = countValue (length (users db))
           in Sent (Reply 200 (UsersSummaryBody (parseInt totalUsers)))))"

section \<open>Example data\<close>

text \<open>
  Rows to run the definitions on: a meal with a given \<open>inDiet\<close>, whose stored flag
  \<open>isOnTheDiet\<close> is true; a user; and the body of a \<open>POST /meals\<close> with a given flag.
\<close>

definition exampleMeal :: "string \<Rightarrow> string \<Rightarrow> jsval \<Rightarrow> meal" where
  "exampleMeal mealId userId flag =
     \<lparr> m_id = mealId, m_user_id = userId, m_name = ''lunch'', m_description = ''rice'',
       isOnTheDiet = True, dateAndHour = JNull, inDiet = flag \<rparr>"

definition exampleUser :: "string \<Rightarrow> string \<Rightarrow> string \<Rightarrow> user" where
  "exampleUser userId email sessionId =
     \<lparr> u_id = userId, u_name = ''Ana'', u_email = email, u_address = ''Rua A'',
       u_weight = 60, u_height = 170, u_session_id = sessionId \<rparr>"

text \<open>
  Two users, each with a session of their own, and one meal of each.
\<close>

definition exampleDatabase :: database where
  "exampleDatabase =
     \<lparr> users = [exampleUser ''u1'' ''ana@x.org'' ''s1'', exampleUser ''u2'' ''bia@x.org'' ''s2''],
       meals = [exampleMeal ''m1'' ''u1'' JNull, exampleMeal ''m2'' ''u2'' JNull] \<rparr>"


definition exampleUserBody :: "string \<Rightarrow> userBody" where
  "exampleUserBody email =
     \<lparr> b_name = ''Caio'', b_email = email, b_address = ''Rua B'', b_weight = 70,
       b_height = 180 \<rparr>"

section \<open>The streak loop and the longest run\<close>

text \<open>
  The loop is related to the runs of the flag list by two facts about an arbitrary
  starting state \<open>(c, m)\<close>: the value after the final step bounds \<open>m\<close>, \<open>c\<close> plus every
  all-true prefix, and every all-true segment; and it is one of these.
\<close>

lemma best_computeMetrics:
  "bestSequenceOfMealsWithinTheDiet (computeMetrics ms) =
     max (fst (streakLoop ms (0, 0))) (snd (streakLoop ms (0, 0)))"
  by (simp add: computeMetrics_def Let_def split: prod.splits)

lemma streakLoop_append:
  "streakLoop (xs @ ys) s = streakLoop ys (streakLoop xs s)"
proof (induction xs arbitrary: s)
  case Nil
  show ?case by (cases s) simp
next
  case (Cons x xs)
  show ?case by (cases s) (simp add: Cons.IH)
qed




lemma longestRun_sublist:
  "longestRun flags = Max {length r |r. sublist r flags \<and> list_all (\<lambda>flag. flag) r}"
proof -
  have "set (map length (filter (list_all (\<lambda>flag. flag)) (sublists flags))) =
        length ` {r. sublist r flags \<and> list_all (\<lambda>flag. flag) r}"
    by (simp only: set_map set_filter set_sublists_eq mem_Collect_eq)
  also have "\<dots> = {length r |r. sublist r flags \<and> list_all (\<lambda>flag. flag) r}"
    by blast
  finally show ?thesis by (simp only: longestRun_def)
qed


lemma streak_bound:
  "max (fst (streakLoop ms (c, m))) (snd (streakLoop ms (c, m)))
     \<le> max m (c + length (filter (\<lambda>item. inDiet item = JNum 1) ms))"
proof (induction ms arbitrary: c m)
  case Nil
  show ?case by simp
next
  case (Cons x ms)
  show ?case
  proof (cases "inDiet x = JNum 1")
    case True
    with Cons.IH[where c = "c + 1" and m = m] show ?thesis by simp
  next
    case False
    with Cons.IH[where c = 0 and m = "if m < c then c else m"] show ?thesis
      by (simp split: if_splits) linarith+
  qed
qed

lemma streak_from_max:
  "max (fst (streakLoop ms (c, m))) (snd (streakLoop ms (c, m)))
     = max m (max (fst (streakLoop ms (c, 0))) (snd (streakLoop ms (c, 0))))"
proof (induction ms arbitrary: c m)
  case Nil
  show ?case by simp
next
  case (Cons x ms)
  show ?case
  proof (cases "inDiet x = JNum 1")
    case True
    with Cons.IH[where c = "c + 1" and m = m] show ?thesis by simp
  next
    case False
    have a: "max (fst (streakLoop ms (0, max m c))) (snd (streakLoop ms (0, max m c)))
      = max (max m c) (max (fst (streakLoop ms (0, 0))) (snd (streakLoop ms (0, 0))))"
      by (rule Cons.IH)
    have b: "max (fst (streakLoop ms (0, c))) (snd (streakLoop ms (0, c)))
      = max c (max (fst (streakLoop ms (0, 0))) (snd (streakLoop ms (0, 0))))"
      by (rule Cons.IH)
    have s1: "streakLoop (x # ms) (c, m) = streakLoop ms (0, max m c)"
      using False by (simp add: max_def)
    have s2: "streakLoop (x # ms) (c, 0) = streakLoop ms (0, c)"
      using False by simp
    show ?thesis unfolding s1 s2 a b by (simp add: max.assoc)
  qed
qed

lemma best_split:
  assumes "inDiet x \<noteq> JNum 1"
  shows "bestSequenceOfMealsWithinTheDiet (computeMetrics (xs @ x # ys)) =
     max (bestSequenceOfMealsWithinTheDiet (computeMetrics xs))
         (bestSequenceOfMealsWithinTheDiet (computeMetrics ys))"
proof -
  obtain c m where cm: "streakLoop xs (0, 0) = (c, m)" by (cases "streakLoop xs (0, 0)")
  have "streakLoop (xs @ x # ys) (0, 0) = streakLoop ys (0, max m c)"
    using assms cm by (simp add: streakLoop_append max_def)
  then have "bestSequenceOfMealsWithinTheDiet (computeMetrics (xs @ x # ys)) =
      max (max m c) (max (fst (streakLoop ys (0, 0))) (snd (streakLoop ys (0, 0))))"
    by (simp only: best_computeMetrics streak_from_max[where c = 0 and m = "max m c"])
  also have "\<dots> = max (bestSequenceOfMealsWithinTheDiet (computeMetrics xs))
         (bestSequenceOfMealsWithinTheDiet (computeMetrics ys))"
    by (simp add: best_computeMetrics cm max.commute)
  finally show ?thesis .
qed

lemma totals_computeMetrics:
  "totalNumberOfMeals (computeMetrics ms) = length ms"
  "totalNumberOfMealsInTheDiet (computeMetrics ms) = length (filter (\<lambda>item. inDiet item = JNum 1) ms)"
  "totalNumberOfMealsOffTheDiet (computeMetrics ms) = length (filter (\<lambda>item. inDiet item = JNum 0) ms)"
  by (simp_all add: computeMetrics_def Let_def split: prod.splits)



text \<open>
  When exactly one user holds the session token, the rows the metrics query returns are
  that user's meals, in the order of the table.
\<close>

lemma join_one_meal:
  "concat (map (\<lambda>u. if P u then (if Q u then [m] else []) else []) us) =
     replicate (length (filter P (filter Q us))) m"
  by (induction us) auto

lemma concat_if_filter:
  "concat (map (\<lambda>m. if P m then [m] else []) ms) = filter P ms"
  by (induction ms) auto

lemma sessionMeals_single_user:
  assumes "filter (\<lambda>u. u_session_id u = sessionId) (users db) = [user]"
  shows "sessionMeals db sessionId = filter (\<lambda>m. m_user_id m = u_id user) (meals db)"
proof -
  have "concat (map (\<lambda>u. if u_id u = k then (if u_session_id u = sessionId then [m] else []) else [])
          (users db)) = (if k = u_id user then [m] else [])" for k and m :: meal
    unfolding join_one_meal assms by auto
  then have "sessionMeals db sessionId =
      concat (map (\<lambda>m. if m_user_id m = u_id user then [m] else []) (meals db))"
    by (simp add: sessionMeals_def)
  also have "\<dots> = filter (\<lambda>m. m_user_id m = u_id user) (meals db)"
    by (rule concat_if_filter)
  finally show ?thesis .
qed

lemma metrics_ignore_isOnTheDiet:
  "computeMetrics (map (\<lambda>m. m \<lparr> isOnTheDiet := f m \<rparr>) ms) = computeMetrics ms"
proof -
  have "streakLoop (map (\<lambda>m. m \<lparr> isOnTheDiet := f m \<rparr>) ms) s = streakLoop ms s" for s
  proof (induction ms arbitrary: s)
    case Nil
    show ?case by simp
  next
    case (Cons x ms)
    show ?case by (cases s) (simp add: Cons.IH)
  qed
  moreover have "filter (\<lambda>item. inDiet item = v) (map (\<lambda>m. m \<lparr> isOnTheDiet := f m \<rparr>) ms)
      = map (\<lambda>m. m \<lparr> isOnTheDiet := f m \<rparr>) (filter (\<lambda>item. inDiet item = v) ms)" for v
    by (induction ms) auto
  ultimately show ?thesis by (simp add: computeMetrics_def)
qed

section \<open>Claims about the metrics\<close>







text \<open>
  C3. For every sequence of meal records, the best sequence is at most the number of
  meals within the diet.
\<close>

theorem best_le_in_diet:
  "bestSequenceOfMealsWithinTheDiet (computeMetrics ms) \<le> totalNumberOfMealsInTheDiet (computeMetrics ms)"
  using streak_bound[where c = 0 and m = 0 and ms = ms]
  by (simp add: best_computeMetrics totals_computeMetrics)

text \<open>
  C4. When the query for the session returns no meal (in particular when the one user
  holding the session token owns no meal), the metrics route answers 404 with the text
  that there is no meal to compute metrics from; and for no database and session does it
  answer with a metrics object whose four fields are zero.
\<close>

theorem no_meals_no_metrics:
  "(sessionMeals db sessionId = [] \<longrightarrow>
      metricsRoute db sessionId = Sent (Reply 404 (MessageBody NoMealsForMetrics))) \<and>
   (filter (\<lambda>u. u_session_id u = sessionId) (users db) = [user] \<and>
    filter (\<lambda>m. m_user_id m = u_id user) (meals db) = [] \<longrightarrow>
      metricsRoute db sessionId = Sent (Reply 404 (MessageBody NoMealsForMetrics))) \<and>
   metricsRoute db sessionId \<noteq>
     Sent (Reply 200 (MetricsBody \<lparr> totalNumberOfMeals = 0, totalNumberOfMealsInTheDiet = 0,
       totalNumberOfMealsOffTheDiet = 0, bestSequenceOfMealsWithinTheDiet = 0 \<rparr>))"
proof (intro conjI impI)
  assume "sessionMeals db sessionId = []"
  then show "metricsRoute db sessionId = Sent (Reply 404 (MessageBody NoMealsForMetrics))"
    by (simp add: metricsRoute_def metricsHandler_def)
next
  assume "filter (\<lambda>u. u_session_id u = sessionId) (users db) = [user] \<and>
    filter (\<lambda>m. m_user_id m = u_id user) (meals db) = []"
  then have "sessionMeals db sessionId = []"
    by (simp add: sessionMeals_single_user)
  then show "metricsRoute db sessionId = Sent (Reply 404 (MessageBody NoMealsForMetrics))"
    by (simp add: metricsRoute_def metricsHandler_def)
next
  show "metricsRoute db sessionId \<noteq>
     Sent (Reply 200 (MetricsBody \<lparr> totalNumberOfMeals = 0, totalNumberOfMealsInTheDiet = 0,
       totalNumberOfMealsOffTheDiet = 0, bestSequenceOfMealsWithinTheDiet = 0 \<rparr>))"
  proof (cases "sessionMeals db sessionId = []")
    case True
    then show ?thesis by (simp add: metricsRoute_def metricsHandler_def)
  next
    case False
    then have "totalNumberOfMeals (computeMetrics (sessionMeals db sessionId)) \<noteq> 0"
      by (simp add: totals_computeMetrics)
    with False show ?thesis by (auto simp: metricsRoute_def metricsHandler_def)
  qed
qed

text \<open>
  C4 on a database with one user, whose session is \<open>s1\<close>, and one meal of another
  user: the query returns nothing and the answer is the 404.
\<close>

theorem no_meals_no_metrics_witness:
  "sessionMeals \<lparr> users = [exampleUser ''u1'' ''ana@x.org'' ''s1''],
                  meals = [exampleMeal ''m1'' ''u2'' (JNum 1)] \<rparr> ''s1'' = [] \<and>
   metricsRoute \<lparr> users = [exampleUser ''u1'' ''ana@x.org'' ''s1''],
                  meals = [exampleMeal ''m1'' ''u2'' (JNum 1)] \<rparr> ''s1'' =
     Sent (Reply 404 (MessageBody NoMealsForMetrics))"
  using no_meals_no_metrics
    [of "\<lparr> users = [exampleUser ''u1'' ''ana@x.org'' ''s1''],
           meals = [exampleMeal ''m1'' ''u2'' (JNum 1)] \<rparr>" "''s1''"]
  by (simp add: sessionMeals_def exampleUser_def exampleMeal_def)




text \<open>
  C10. A meal adds one to the number within the diet exactly when its \<open>inDiet\<close> is the
  integer 1, and one to the number off the diet exactly when it is the integer 0. A meal
  whose \<open>inDiet\<close> is not 1 sets the current streak to zero, so the best sequence of a
  list around it is the greater of the best sequences before and after it; a meal whose
  \<open>inDiet\<close> is 1 adds one to the current streak. The metrics do not depend on the column
  \<open>isOnTheDiet\<close>, which is the one that creating a meal writes: the new row holds the
  submitted flag there and in \<open>inDiet\<close> what the table gives a column left out.
\<close>

theorem flag_classification:
  "totalNumberOfMealsInTheDiet (computeMetrics (xs @ x # ys)) =
     totalNumberOfMealsInTheDiet (computeMetrics (xs @ ys)) + (if inDiet x = JNum 1 then 1 else 0) \<and>
   totalNumberOfMealsOffTheDiet (computeMetrics (xs @ x # ys)) =
     totalNumberOfMealsOffTheDiet (computeMetrics (xs @ ys)) + (if inDiet x = JNum 0 then 1 else 0) \<and>
   (inDiet x \<noteq> JNum 1 \<longrightarrow>
      streakLoop [x] (currentStreak, maxStreak) = (0, max maxStreak currentStreak) \<and>
      bestSequenceOfMealsWithinTheDiet (computeMetrics (xs @ x # ys)) =
        max (bestSequenceOfMealsWithinTheDiet (computeMetrics xs))
            (bestSequenceOfMealsWithinTheDiet (computeMetrics ys))) \<and>
   (inDiet x = JNum 1 \<longrightarrow>
      streakLoop [x] (currentStreak, maxStreak) = (currentStreak + 1, maxStreak)) \<and>
   computeMetrics (map (\<lambda>m. m \<lparr> isOnTheDiet := f m \<rparr>) ys) = computeMetrics ys \<and>
   (findUserId db sessionId = Some userId \<longrightarrow>
      createMeal blank db sessionId (Some b) newMealId =
        (Sent (Reply 201 (TextBody MealCreated)),
         db \<lparr> meals := meals db @
           [\<lparr> m_id = newMealId, m_user_id = userId, m_name = mb_name b,
              m_description = mb_description b, isOnTheDiet = mb_isOnTheDiet b,
              dateAndHour = dateAndHour blank, inDiet = inDiet blank \<rparr>] \<rparr>))"
proof (intro conjI impI)
  show "computeMetrics (map (\<lambda>m. m \<lparr> isOnTheDiet := f m \<rparr>) ys) = computeMetrics ys"
    by (rule metrics_ignore_isOnTheDiet)
next
  assume "inDiet x \<noteq> JNum 1"
  then show "bestSequenceOfMealsWithinTheDiet (computeMetrics (xs @ x # ys)) =
        max (bestSequenceOfMealsWithinTheDiet (computeMetrics xs))
            (bestSequenceOfMealsWithinTheDiet (computeMetrics ys))"
    by (rule best_split)
next
  assume "findUserId db sessionId = Some userId"
  then show "createMeal blank db sessionId (Some b) newMealId =
        (Sent (Reply 201 (TextBody MealCreated)),
         db \<lparr> meals := meals db @
           [\<lparr> m_id = newMealId, m_user_id = userId, m_name = mb_name b,
              m_description = mb_description b, isOnTheDiet = mb_isOnTheDiet b,
              dateAndHour = dateAndHour blank, inDiet = inDiet blank \<rparr>] \<rparr>)"
    by (cases blank) (simp add: createMeal_def)
qed (simp_all add: totals_computeMetrics max_def)

text \<open>
  C10 on a meal whose \<open>inDiet\<close> is the boolean \<open>true\<close> between two meals whose
  \<open>inDiet\<close> is 1: three meals, two within the diet, none off it, best sequence 1. And a
  meal created with \<open>isOnTheDiet\<close> true, in a table that leaves \<open>inDiet\<close> null, is in
  neither count.
\<close>

theorem flag_classification_witness:
  "inDiet (exampleMeal ''m2'' ''u1'' (JBool True)) \<noteq> JNum 1 \<and>
   computeMetrics ([exampleMeal ''m1'' ''u1'' (JNum 1)] @ exampleMeal ''m2'' ''u1'' (JBool True)
       # [exampleMeal ''m3'' ''u1'' (JNum 1)]) =
     \<lparr> totalNumberOfMeals = 3, totalNumberOfMealsInTheDiet = 2,
       totalNumberOfMealsOffTheDiet = 0, bestSequenceOfMealsWithinTheDiet = 1 \<rparr> \<and>
   findUserId \<lparr> users = [exampleUser ''u1'' ''ana@x.org'' ''s1''], meals = [] \<rparr> ''s1'' = Some ''u1'' \<and>
   metricsRoute
     (snd (createMeal (exampleMeal [] [] JNull)
        \<lparr> users = [exampleUser ''u1'' ''ana@x.org'' ''s1''], meals = [] \<rparr> ''s1''
        (Some \<lparr> mb_name = ''lunch'', mb_description = ''rice'', mb_isOnTheDiet = True \<rparr>) ''m9''))
     ''s1'' =
     Sent (Reply 200 (MetricsBody \<lparr> totalNumberOfMeals = 1, totalNumberOfMealsInTheDiet = 0,
       totalNumberOfMealsOffTheDiet = 0, bestSequenceOfMealsWithinTheDiet = 0 \<rparr>))"
  using flag_classification
    [where xs = "[exampleMeal ''m1'' ''u1'' (JNum 1)]"
       and x = "exampleMeal ''m2'' ''u1'' (JBool True)"
       and ys = "[exampleMeal ''m3'' ''u1'' (JNum 1)]"
       and currentStreak = 1 and maxStreak = 0 and f = "\<lambda>m. False"
       and db = "\<lparr> users = [exampleUser ''u1'' ''ana@x.org'' ''s1''], meals = [] \<rparr>"
       and sessionId = "''s1''" and userId = "''u1''"
       and blank = "exampleMeal [] [] JNull"
       and b = "\<lparr> mb_name = ''lunch'', mb_description = ''rice'', mb_isOnTheDiet = True \<rparr>"
       and newMealId = "''m9''"]
  by (simp add: computeMetrics_def exampleMeal_def exampleUser_def findUserId_def
      metricsRoute_def metricsHandler_def sessionMeals_def)

section \<open>Claims about the meal routes\<close>

text \<open>
  What the delete and the edit leave in the table \<open>meals\<close>, and what the three routes
  do to the rows of a user other than the one the session resolves to.
\<close>

lemma filter_map_fixed:
  assumes "\<And>m. P (f m) = P m" and "\<And>m. P m \<Longrightarrow> f m = m"
  shows "filter P (map f ms) = filter P ms"
proof (induction ms)
  case Nil
  show ?case by simp
next
  case (Cons x ms)
  show ?case
  proof (cases "P x")
    case True
    with assms[of x] Cons.IH show ?thesis by (simp del: filter_map)
  next
    case False
    with assms(1)[of x] Cons.IH show ?thesis by (simp del: filter_map)
  qed
qed

lemma edit_keeps_others:
  "filter (\<lambda>m. owner \<noteq> Some (m_user_id m))
     (map (\<lambda>m. if m_id m = k \<and> Some (m_user_id m) = owner
                then m \<lparr> m_name := a, m_description := b, isOnTheDiet := c \<rparr> else m) ms) =
   filter (\<lambda>m. owner \<noteq> Some (m_user_id m)) ms"
proof -
  let ?f = "\<lambda>m. if m_id m = k \<and> Some (m_user_id m) = owner
                then m \<lparr> m_name := a, m_description := b, isOnTheDiet := c \<rparr> else m"
  let ?P = "\<lambda>m. owner \<noteq> Some (m_user_id m)"
  have same: "?P (?f m) = ?P m" for m
    by (cases "m_id m = k \<and> Some (m_user_id m) = owner") simp_all
  have fixed: "?f m = m" if "?P m" for m
  proof -
    from that have "\<not> (m_id m = k \<and> Some (m_user_id m) = owner)" by (simp add: eq_commute)
    then show ?thesis by (simp only: if_False)
  qed
  show ?thesis
    using filter_map_fixed[of ?P ?f ms, OF same fixed] .
qed

lemma delete_keeps_others:
  "filter (\<lambda>m. owner \<noteq> Some (m_user_id m))
     (filter (\<lambda>m. \<not> (m_id m = k \<and> Some (m_user_id m) = owner)) ms) =
   filter (\<lambda>m. owner \<noteq> Some (m_user_id m)) ms"
  by (induction ms) auto

lemma edit_touches_owned:
  "list_all2 (\<lambda>old new. new = old \<or> owner = Some (m_user_id old)) ms
     (map (\<lambda>m. if m_id m = k \<and> Some (m_user_id m) = owner then g m else m) ms)"
  by (induction ms) auto

lemma delete_removes_owned:
  "list_all (\<lambda>m. m \<in> set (filter (\<lambda>m. \<not> (m_id m = k \<and> Some (m_user_id m) = owner)) ms)
       \<or> owner = Some (m_user_id m)) ms"
  by (auto simp: list_all_iff)

lemma find_owned:
  "find (\<lambda>m. m_id m = k \<and> m_user_id m = userId) ms = Some meal \<Longrightarrow>
     meal \<in> set ms \<and> m_user_id meal = userId \<and> m_id meal = k"
  by (induction ms) (auto split: if_splits)

lemma getMeal_owner:
  "getMeal db sessionId params = Sent (Reply code (MealBody meal)) \<Longrightarrow>
     meal \<in> set (meals db) \<and> findUserId db sessionId = Some (m_user_id meal)"
  by (auto simp: getMeal_def split: option.splits dest: find_owned)

lemma deleteMeal_meals:
  "meals (snd (deleteMeal db sessionId params)) =
     (case params of
        None \<Rightarrow> meals db
      | Some mealId \<Rightarrow>
          filter (\<lambda>m. \<not> (m_id m = mealId \<and> Some (m_user_id m) = findUserId db sessionId)) (meals db))"
  by (auto simp: deleteMeal_def Let_def split: option.splits intro: filter_cong)

lemma editMeal_meals:
  "meals (snd (editMeal db sessionId params body)) =
     (case (params, body) of
        (Some mealId, Some b) \<Rightarrow>
          map (\<lambda>m. if m_id m = mealId \<and> Some (m_user_id m) = findUserId db sessionId
                then m \<lparr> m_name := mb_name b, m_description := mb_description b,
                       isOnTheDiet := mb_isOnTheDiet b \<rparr>
                else m) (meals db)
      | _ \<Rightarrow> meals db)"
proof (cases params)
  case None
  then show ?thesis by (simp add: editMeal_def)
next
  case (Some mealId)
  show ?thesis
  proof (cases "findUserId db sessionId")
    case None
    have "map (\<lambda>m. m) (meals db) = meals db" by simp
    with None Some show ?thesis
      by (cases body) (simp_all add: editMeal_def)
  next
    case owner: (Some userId)
    show ?thesis
    proof (cases body)
      case None
      with Some owner show ?thesis by (simp add: editMeal_def)
    next
      case b: (Some b)
      with Some owner show ?thesis by (simp add: editMeal_def Let_def)
    qed
  qed
qed

lemma mutation_replies:
  "fst (deleteMeal db sessionId params) \<noteq> Sent (Reply code (MealBody meal))"
  "fst (editMeal db sessionId params body) \<noteq> Sent (Reply code (MealBody meal))"
  "users (snd (deleteMeal db sessionId params)) = users db"
  "users (snd (editMeal db sessionId params body)) = users db"
  by (auto simp: deleteMeal_def editMeal_def Let_def split: option.splits)

text \<open>
  C8. A meal that \<open>GET /meals/:id\<close> returns is a row of the table whose owner is the
  user the session resolves to. After \<open>DELETE /meals/:id\<close> and after
  \<open>PUT /meals/:id\<close> the rows of every other owner are the same rows in the same order;
  a row that the delete removed, and a row that the edit changed, is owned by the
  resolved user; the delete adds no row; and neither of the two replies carries a meal.
\<close>

theorem meals_restricted_to_owner:
  "(getMeal db sessionId params = Sent (Reply code (MealBody meal)) \<longrightarrow>
      meal \<in> set (meals db) \<and> findUserId db sessionId = Some (m_user_id meal)) \<and>
   filter (\<lambda>m. findUserId db sessionId \<noteq> Some (m_user_id m))
       (meals (snd (deleteMeal db sessionId params))) =
     filter (\<lambda>m. findUserId db sessionId \<noteq> Some (m_user_id m)) (meals db) \<and>
   list_all (\<lambda>m. m \<in> set (meals (snd (deleteMeal db sessionId params)))
       \<or> findUserId db sessionId = Some (m_user_id m)) (meals db) \<and>
   set (meals (snd (deleteMeal db sessionId params))) \<subseteq> set (meals db) \<and>
   filter (\<lambda>m. findUserId db sessionId \<noteq> Some (m_user_id m))
       (meals (snd (editMeal db sessionId params body))) =
     filter (\<lambda>m. findUserId db sessionId \<noteq> Some (m_user_id m)) (meals db) \<and>
   list_all2 (\<lambda>old new. new = old \<or> findUserId db sessionId = Some (m_user_id old))
     (meals db) (meals (snd (editMeal db sessionId params body))) \<and>
   fst (deleteMeal db sessionId params) \<noteq> Sent (Reply code (MealBody meal)) \<and>
   fst (editMeal db sessionId params body) \<noteq> Sent (Reply code (MealBody meal))"
proof -
  have g: "getMeal db sessionId params = Sent (Reply code (MealBody meal)) \<longrightarrow>
      meal \<in> set (meals db) \<and> findUserId db sessionId = Some (m_user_id meal)"
    using getMeal_owner by (rule impI)
  have d1: "filter (\<lambda>m. findUserId db sessionId \<noteq> Some (m_user_id m))
       (meals (snd (deleteMeal db sessionId params))) =
     filter (\<lambda>m. findUserId db sessionId \<noteq> Some (m_user_id m)) (meals db)"
    unfolding deleteMeal_meals by (cases params) (simp_all only: option.case delete_keeps_others)
  have d2: "list_all (\<lambda>m. m \<in> set (meals (snd (deleteMeal db sessionId params)))
       \<or> findUserId db sessionId = Some (m_user_id m)) (meals db)"
    unfolding deleteMeal_meals
    by (cases params) (simp_all only: option.case delete_removes_owned, simp add: list_all_iff)
  have d3: "set (meals (snd (deleteMeal db sessionId params))) \<subseteq> set (meals db)"
    unfolding deleteMeal_meals by (cases params) auto
  have e1: "filter (\<lambda>m. findUserId db sessionId \<noteq> Some (m_user_id m))
       (meals (snd (editMeal db sessionId params body))) =
     filter (\<lambda>m. findUserId db sessionId \<noteq> Some (m_user_id m)) (meals db)"
    unfolding editMeal_meals
    by (cases params; cases body) (simp_all only: prod.case option.case edit_keeps_others)
  have e2: "list_all2 (\<lambda>old new. new = old \<or> findUserId db sessionId = Some (m_user_id old))
     (meals db) (meals (snd (editMeal db sessionId params body)))"
    unfolding editMeal_meals
    by (cases params; cases body)
      (simp_all only: prod.case option.case edit_touches_owned, simp_all add: list_all2_same)
  show ?thesis
    by (intro conjI g d1 d2 d3 e1 e2 mutation_replies)
qed

text \<open>
  C8 on the two users of the example: the session \<open>s1\<close> reads its own meal \<open>m1\<close>; for
  the meal \<open>m2\<close> of the other user it gets 404 from the read and 401 from the delete,
  which leaves the database as it was; deleting \<open>m1\<close> leaves \<open>m2\<close>.
\<close>

theorem meals_restricted_to_owner_witness:
  "getMeal exampleDatabase ''s1'' (Some ''m1'') =
     Sent (Reply 200 (MealBody (exampleMeal ''m1'' ''u1'' JNull))) \<and>
   findUserId exampleDatabase ''s1'' = Some ''u1'' \<and>
   getMeal exampleDatabase ''s1'' (Some ''m2'') = Sent (Reply 404 (ErrorBody MealNotFound)) \<and>
   deleteMeal exampleDatabase ''s1'' (Some ''m2'') =
     (Sent (Reply 401 (ErrorBody Unauthorized)), exampleDatabase) \<and>
   meals (snd (deleteMeal exampleDatabase ''s1'' (Some ''m1''))) = [exampleMeal ''m2'' ''u2'' JNull]"
  using meals_restricted_to_owner
    [where db = exampleDatabase and sessionId = "''s1''" and params = "Some ''m1''"
       and code = 200 and meal = "exampleMeal ''m1'' ''u1'' JNull" and body = None]
  by (simp add: getMeal_def deleteMeal_def findUserId_def exampleDatabase_def
      exampleMeal_def exampleUser_def)

section \<open>Claims about registration\<close>

lemma registerUser_success:
  "answered (registerUser db cookie body newSessionId newUserId) =
       Sent (Reply 201 (MessageBody UserRegistered)) \<Longrightarrow>
   \<exists>new. users (stored (registerUser db cookie body newSessionId newUserId)) = users db @ [new] \<and>
     u_session_id new =
       (case cookie of None \<Rightarrow> newSessionId | Some c \<Rightarrow> if c = [] then newSessionId else c)"
  by (auto simp: registerUser_def Let_def split: option.splits)

lemma registerUser_failure:
  "answered (registerUser db cookie body newSessionId newUserId) \<noteq>
       Sent (Reply 201 (MessageBody UserRegistered)) \<Longrightarrow>
   stored (registerUser db cookie body newSessionId newUserId) = db"
  by (auto simp: registerUser_def Let_def split: option.splits)

text \<open>
  C9, as amended. After a successful registration the session tokens are pairwise
  distinct exactly when they were so before and the token given to the new user (the
  request's \<open>sessionId\<close> cookie when it is present and not empty, otherwise the UUID just
  generated) is not the token of a stored user. A registration that does not succeed
  leaves the store as it was.
\<close>

theorem registration_tokens_amended:
  "(answered (registerUser db cookie body newSessionId newUserId) =
       Sent (Reply 201 (MessageBody UserRegistered)) \<longrightarrow>
      distinct (map u_session_id (users (stored (registerUser db cookie body newSessionId newUserId))))
      = (distinct (map u_session_id (users db)) \<and>
         (case cookie of None \<Rightarrow> newSessionId | Some c \<Rightarrow> if c = [] then newSessionId else c)
           \<notin> set (map u_session_id (users db)))) \<and>
   (answered (registerUser db cookie body newSessionId newUserId) \<noteq>
       Sent (Reply 201 (MessageBody UserRegistered)) \<longrightarrow>
      stored (registerUser db cookie body newSessionId newUserId) = db)"
proof (intro conjI impI)
  assume "answered (registerUser db cookie body newSessionId newUserId) =
       Sent (Reply 201 (MessageBody UserRegistered))"
  then obtain new where
    "users (stored (registerUser db cookie body newSessionId newUserId)) = users db @ [new]"
    "u_session_id new =
       (case cookie of None \<Rightarrow> newSessionId | Some c \<Rightarrow> if c = [] then newSessionId else c)"
    using registerUser_success by blast
  then show "distinct (map u_session_id (users (stored (registerUser db cookie body newSessionId newUserId))))
      = (distinct (map u_session_id (users db)) \<and>
         (case cookie of None \<Rightarrow> newSessionId | Some c \<Rightarrow> if c = [] then newSessionId else c)
           \<notin> set (map u_session_id (users db)))"
    by simp
next
  assume "answered (registerUser db cookie body newSessionId newUserId) \<noteq>
       Sent (Reply 201 (MessageBody UserRegistered))"
  then show "stored (registerUser db cookie body newSessionId newUserId) = db"
    by (rule registerUser_failure)
qed

text \<open>
  C9 as amended, on a request without cookie and a generated token \<open>s3\<close> that no stored
  user holds: the registration succeeds, sets the cookie, and the tokens stay distinct.
\<close>

theorem registration_tokens_amended_witness:
  "answered (registerUser exampleDatabase None (Some (exampleUserBody ''caio@x.org'')) ''s3'' ''u3'') =
     Sent (Reply 201 (MessageBody UserRegistered)) \<and>
   cookieSet (registerUser exampleDatabase None (Some (exampleUserBody ''caio@x.org'')) ''s3'' ''u3'') =
     Some ''s3'' \<and>
   distinct (map u_session_id (users exampleDatabase)) \<and>
   distinct (map u_session_id
     (users (stored (registerUser exampleDatabase None (Some (exampleUserBody ''caio@x.org''))
        ''s3'' ''u3''))))"
  using registration_tokens_amended
    [where db = exampleDatabase and cookie = None
       and body = "Some (exampleUserBody ''caio@x.org'')"
       and newSessionId = "''s3''" and newUserId = "''u3''"]
  by (simp add: registerUser_def Let_def exampleDatabase_def exampleUser_def exampleUserBody_def)

text \<open>
  C9 as the claim states it fails when the request carries the cookie \<open>s1\<close> of a stored
  user and a new email: the registration succeeds and two users hold \<open>s1\<close>.
\<close>

theorem registration_tokens_counterexample:
  "distinct (map u_session_id (users exampleDatabase)) \<and>
   answered (registerUser exampleDatabase (Some ''s1'') (Some (exampleUserBody ''caio@x.org''))
       ''s3'' ''u3'') = Sent (Reply 201 (MessageBody UserRegistered)) \<and>
   map u_session_id (users (stored (registerUser exampleDatabase (Some ''s1'')
       (Some (exampleUserBody ''caio@x.org'')) ''s3'' ''u3''))) = [''s1'', ''s2'', ''s1''] \<and>
   \<not> distinct (map u_session_id (users (stored (registerUser exampleDatabase (Some ''s1'')
       (Some (exampleUserBody ''caio@x.org'')) ''s3'' ''u3''))))"
  by (simp add: registerUser_def Let_def exampleDatabase_def exampleUser_def exampleUserBody_def)

section \<open>Claims about the summaries\<close>

text \<open>
  \<open>parseInt\<close> reads back the decimal digits of a natural number, given as a number or
  as text, and yields \<open>NaN\<close> on a text that does not start with a number.
\<close>

lemma decimal_char_facts:
  assumes "48 \<le> (of_char c :: nat)" "(of_char c :: nat) \<le> 57"
  shows "\<not> isWhiteSpace c" "c \<noteq> CHR ''-''" "c \<noteq> CHR ''+''" "c \<noteq> CHR ''x''" "c \<noteq> CHR ''X''"
    "digitValue c = Some (of_char c - 48)" "radixDigit 10 c"
  using assms by (auto simp: isWhiteSpace_def digitValue_def radixDigit_def)

lemma natToString_decimal:
  "natToString n \<noteq> [] \<and> list_all (\<lambda>c. 48 \<le> (of_char c :: nat) \<and> (of_char c :: nat) \<le> 57) (natToString n)"
proof (induction n rule: natToString.induct)
  case (1 n)
  show ?case
  proof (cases "n < 10")
    case True
    then show ?thesis by (subst (1 2) natToString.simps) simp
  next
    case False
    have "n mod 10 < 10" by simp
    then have "of_char (char_of (48 + n mod 10)) = (48 + n mod 10 :: nat)" by simp
    with False "1.IH" show ?thesis by (subst (1 2) natToString.simps) simp
  qed
qed

lemma mathInt_snoc:
  "mathInt R (Z @ [c]) = (case digitValue c of None \<Rightarrow> mathInt R Z | Some d \<Rightarrow> mathInt R Z * R + d)"
  by (cases "digitValue c") (simp_all add: mathInt_def)

lemma mathInt_natToString: "mathInt 10 (natToString n) = n"
proof (induction n rule: natToString.induct)
  case (1 n)
  show ?case
  proof (cases "n < 10")
    case True
    then have "digitValue (char_of (48 + n)) = Some n"
      by (simp add: digitValue_def Let_def)
    with True show ?thesis by (subst natToString.simps) (simp add: mathInt_def)
  next
    case False
    have "n mod 10 \<le> 9" by arith
    then have "digitValue (char_of (48 + n mod 10)) = Some (n mod 10)"
      by (simp add: digitValue_def Let_def)
    with False "1.IH" show ?thesis by (subst natToString.simps) (simp add: mathInt_snoc)
  qed
qed

lemma parseIntString_decimal:
  assumes "ds \<noteq> []"
    and "list_all (\<lambda>c. 48 \<le> (of_char c :: nat) \<and> (of_char c :: nat) \<le> 57) ds"
  shows "parseIntString ds = Num (int (mathInt 10 ds))"
proof -
  from assms obtain c cs where ds: "ds = c # cs" by (cases ds) auto
  with assms have c: "48 \<le> (of_char c :: nat)" "(of_char c :: nat) \<le> 57" by simp_all
  have white: "dropWhile isWhiteSpace ds = ds"
    using decimal_char_facts(1)[OF c] by (simp add: ds)
  have nohex: "\<not> (take 2 ds = ''0x'' \<or> take 2 ds = ''0X'')"
  proof (cases cs)
    case Nil
    then show ?thesis by (simp add: ds)
  next
    case (Cons c' cs')
    with assms ds have c': "48 \<le> (of_char c' :: nat)" "(of_char c' :: nat) \<le> 57" by simp_all
    from decimal_char_facts(4,5)[OF c'] show ?thesis by (simp add: ds Cons)
  qed
  have "\<forall>x \<in> set ds. radixDigit 10 x"
    using assms(2) decimal_char_facts(7) by (auto simp: list_all_iff)
  then have digits: "takeWhile (radixDigit 10) ds = ds"
    by (simp add: takeWhile_eq_all_conv)
  have sign: "hd ds \<noteq> CHR ''-''" "hd ds \<noteq> CHR ''+''"
    using decimal_char_facts(2,3)[OF c] by (simp_all add: ds)
  show ?thesis
    unfolding parseIntString_def Let_def white
    using nohex sign assms(1) by (simp add: digits)
qed

lemma parseInt_count:
  "parseInt (JNum (int n)) = Num (int n)"
  "parseInt (JStr (natToString n)) = Num (int n)"
  using natToString_decimal[of n]
  by (simp_all add: parseInt_def toString_def parseIntString_decimal mathInt_natToString)

lemma parseInt_examples:
  "parseInt (JStr ''abc'') = NaN"
  "parseInt JNull = NaN"
  "parseInt JUndefined = NaN"
  "parseInt (JStr '' 42abc'') = Num 42"
  "parseInt (JStr ''-7'') = Num (- 7)"
  "parseInt (JStr ''0x1f'') = Num 31"
  "parseInt (JStr '''') = NaN"
  by (simp_all add: parseInt_def toString_def parseIntString_def isWhiteSpace_def
      radixDigit_def digitValue_def mathInt_def)

lemma parseInt_no_digit:
  assumes "\<not> isWhiteSpace c" "c \<noteq> CHR ''+''" "c \<noteq> CHR ''-''" "\<not> radixDigit 10 c"
  shows "parseInt (JStr (c # cs)) = NaN"
proof -
  have "c \<noteq> CHR ''0''"
    using assms(4) by (auto simp: radixDigit_def digitValue_def)
  with assms show ?thesis
    by (simp add: parseInt_def toString_def parseIntString_def Let_def)
qed

text \<open>The two summaries for a session that resolves to no user, and to a user.\<close>

lemma summaries_unresolved:
  assumes "findUserId db sessionId = None"
  shows "mealsSummary countValue db sessionId = Rejected (ReferenceError ''response'')"
    and "usersSummary countValue db sessionId = Sent (Reply 404 (ErrorBody UserNotFound))"
  using assms by (simp_all add: mealsSummary_def mealsSummaryTry_def mealsSummaryCatch_def
      usersSummary_def)

lemma mealsSummary_resolved:
  assumes "findUserId db sessionId = Some userId"
  shows "mealsSummary countValue db sessionId =
        Sent (Reply 200 (MealsSummaryBody
          \<lparr> totalRegistered = parseInt (countValue
               (length (filter (\<lambda>m. m_user_id m = userId) (meals db)))),
            totalWithinDiet = parseInt (countValue
               (length (filter (\<lambda>m. isOnTheDiet m \<and> m_user_id m = userId) (meals db)))),
            totalOutsideDiet = parseInt (countValue
               (length (filter (\<lambda>m. \<not> isOnTheDiet m \<and> m_user_id m = userId) (meals db)))) \<rparr>))"
  using assms by (simp add: mealsSummary_def mealsSummaryTry_def Let_def)

lemma findUserId_example:
  "findUserId exampleDatabase ''s1'' = Some ''u1''"
  "findUserId exampleDatabase ''s9'' = None"
  by (simp_all add: findUserId_def exampleDatabase_def exampleUser_def)

text \<open>
  C6, at the input where the code departs from it: a session \<open>s9\<close> that no user of the
  example database holds. \<open>GET /users/summary\<close> answers 404 with the text that the user
  was not found. In \<open>GET /meals/summary\<close> the same line throws a \<open>ReferenceError\<close> for
  the unbound name \<open>response\<close>, in the \<open>try\<close> block and again in the \<open>catch\<close>, so the
  handler rejects instead of sending the 404. Neither runs a count or returns a summary.
\<close>

theorem meals_summary_unresolved_session:
  "findUserId exampleDatabase ''s9'' = None \<and>
   mealsSummaryTry (\<lambda>n. JNum (int n)) exampleDatabase ''s9'' = Rejected (ReferenceError ''response'') \<and>
   mealsSummary (\<lambda>n. JNum (int n)) exampleDatabase ''s9'' = Rejected (ReferenceError ''response'') \<and>
   usersSummary (\<lambda>n. JNum (int n)) exampleDatabase ''s9'' =
     Sent (Reply 404 (ErrorBody UserNotFound))"
  by (simp add: mealsSummary_def mealsSummaryTry_def mealsSummaryCatch_def usersSummary_def
      findUserId_def exampleDatabase_def exampleUser_def)

text \<open>
  C7, as amended. For a session that resolves to a user, \<open>GET /meals/summary\<close> answers
  200 with an object of three fields, the total, the number within and the number off
  the diet, each the \<open>parseInt\<close> of the count as the database client presents it. A
  count presented as the number \<open>n\<close> or as the decimal text of \<open>n\<close> gives \<open>n\<close>; a text
  that is empty, or whose first character is no white space, sign or decimal digit, gives
  \<open>NaN\<close> in that field of the same 200 reply.
\<close>

theorem meals_summary_amended:
  "(findUserId db sessionId = Some userId \<longrightarrow>
      mealsSummary countValue db sessionId =
        Sent (Reply 200 (MealsSummaryBody
          \<lparr> totalRegistered = parseInt (countValue
               (length (filter (\<lambda>m. m_user_id m = userId) (meals db)))),
            totalWithinDiet = parseInt (countValue
               (length (filter (\<lambda>m. isOnTheDiet m \<and> m_user_id m = userId) (meals db)))),
            totalOutsideDiet = parseInt (countValue
               (length (filter (\<lambda>m. \<not> isOnTheDiet m \<and> m_user_id m = userId) (meals db)))) \<rparr>))) \<and>
   parseInt (JNum (int n)) = Num (int n) \<and>
   parseInt (JStr (natToString n)) = Num (int n) \<and>
   parseInt (JStr []) = NaN \<and>
   (\<not> isWhiteSpace c \<and> c \<noteq> CHR ''+'' \<and> c \<noteq> CHR ''-'' \<and> \<not> radixDigit 10 c \<longrightarrow>
      parseInt (JStr (c # cs)) = NaN)"
proof (intro conjI impI)
  assume "findUserId db sessionId = Some userId"
  then show "mealsSummary countValue db sessionId =
        Sent (Reply 200 (MealsSummaryBody
          \<lparr> totalRegistered = parseInt (countValue
               (length (filter (\<lambda>m. m_user_id m = userId) (meals db)))),
            totalWithinDiet = parseInt (countValue
               (length (filter (\<lambda>m. isOnTheDiet m \<and> m_user_id m = userId) (meals db)))),
            totalOutsideDiet = parseInt (countValue
               (length (filter (\<lambda>m. \<not> isOnTheDiet m \<and> m_user_id m = userId) (meals db)))) \<rparr>))"
    by (rule mealsSummary_resolved)
next
  assume "\<not> isWhiteSpace c \<and> c \<noteq> CHR ''+'' \<and> c \<noteq> CHR ''-'' \<and> \<not> radixDigit 10 c"
  then show "parseInt (JStr (c # cs)) = NaN"
    by (simp add: parseInt_no_digit)
next
  show "parseInt (JStr []) = NaN"
    by (simp add: parseInt_def toString_def parseIntString_def)
qed (rule parseInt_count)+

text \<open>
  C7 as amended, on the session \<open>s1\<close> of the example with counts presented as text: the
  summary is 1, 1, 0; and the text \<open>abc\<close> reads as \<open>NaN\<close>.
\<close>

theorem meals_summary_amended_witness:
  "findUserId exampleDatabase ''s1'' = Some ''u1'' \<and>
   mealsSummary (\<lambda>n. JStr (natToString n)) exampleDatabase ''s1'' =
     Sent (Reply 200 (MealsSummaryBody
       \<lparr> totalRegistered = Num 1, totalWithinDiet = Num 1, totalOutsideDiet = Num 0 \<rparr>)) \<and>
   \<not> isWhiteSpace CHR ''a'' \<and> \<not> radixDigit 10 CHR ''a'' \<and>
   parseInt (JStr ''abc'') = NaN"
  using meals_summary_amended
    [where db = exampleDatabase and sessionId = "''s1''" and userId = "''u1''"
       and countValue = "\<lambda>n. JStr (natToString n)" and c = "CHR ''a''" and cs = "''bc''"]
    meals_summary_amended [where n = 1] meals_summary_amended [where n = 0]
  by (simp add: findUserId_def exampleDatabase_def exampleUser_def exampleMeal_def
      isWhiteSpace_def radixDigit_def digitValue_def)

text \<open>
  C7 as the claim states it fails when the counts arrive as the text \<open>abc\<close>: the handler
  does not fail, it answers 200 with \<open>NaN\<close> in the three fields.
\<close>

theorem meals_summary_counterexample:
  "findUserId exampleDatabase ''s1'' = Some ''u1'' \<and>
   mealsSummary (\<lambda>n. JStr ''abc'') exampleDatabase ''s1'' =
     Sent (Reply 200 (MealsSummaryBody
       \<lparr> totalRegistered = NaN, totalWithinDiet = NaN, totalOutsideDiet = NaN \<rparr>))"
  using mealsSummary_resolved [OF findUserId_example(1), of "\<lambda>n. JStr ''abc''"]
  by (simp add: findUserId_example parseInt_examples)

end
